theory Spec2Isabelle
  imports Complex_Main
begin

section \<open>Shared JavaScript values\<close>

text \<open>
  A rejected promise or a thrown exception is a value of \<open>js_error\<close>; an awaited
  operation settles to \<open>js_error + 'a\<close>, with \<open>Inl\<close> the rejection.
\<close>

datatype js_error = TypeError string | InvalidStateError string | OtherError string

text \<open>\<open>String.prototype.startsWith\<close> and \<open>String.prototype.includes\<close>.\<close>

fun startsWith :: "string \<Rightarrow> string \<Rightarrow> bool" where
  "startsWith s [] = True"
| "startsWith [] (p # ps) = False"
| "startsWith (c # cs) (p # ps) = (c = p \<and> startsWith cs ps)"

fun includes_str :: "string \<Rightarrow> string \<Rightarrow> bool" where
  "includes_str [] t = (t = [])"
| "includes_str (c # cs) t = (startsWith (c # cs) t \<or> includes_str cs t)"

section \<open>The data-management hook (useDataManagement)\<close>

text \<open>
  \<open>FileItem\<close> is \<open>{name, id, content?}\<close>: the optional \<open>content\<close> field is an option,
  \<open>None\<close> when the field is not set. The id is the number \<open>Math.random()\<close> returned.
\<close>

record FileItem =
  item_name :: string
  item_id :: real
  item_content :: "string option"

text \<open>
  The browser's \<open>File\<close>, as far as the hook reads it: its name and what the promise
  \<open>file.text()\<close> settles to.
\<close>

record js_file =
  file_name :: string
  file_text :: "js_error + string"

record data_state =
  files :: "FileItem list"
  isGeneratingData :: bool
  isIndexing :: bool
  ragStatus :: string

datatype dm_effect =
    DmConsoleError string
  | RagIndexCalled "FileItem list"
  | TimeoutSet nat

definition initial_data_state :: data_state where
  "initial_data_state =
     \<lparr>files = [], isGeneratingData = False, isIndexing = False, ragStatus = ''Idle''\<rparr>"

text \<open>\<open>addFile\<close> is the functional update \<open>prev => [...prev, file]\<close>.\<close>

definition addFile :: "FileItem \<Rightarrow> data_state \<Rightarrow> data_state" where
  "addFile file st = st\<lparr>files := files st @ [file]\<rparr>"

definition removeFile :: "real \<Rightarrow> data_state \<Rightarrow> data_state" where
  "removeFile i st = st\<lparr>files := filter (\<lambda>f. item_id f \<noteq> i) (files st)\<rparr>"

text \<open>
  \<open>handleFileUpload\<close>: the first argument is the value \<open>Math.random()\<close> returns in
  this call. The \<open>try\<close> branch runs when \<open>file.text()\<close> resolves, the \<open>catch\<close>
  branch when it rejects.
\<close>

definition handleFileUpload ::
  "real \<Rightarrow> js_file \<Rightarrow> data_state \<Rightarrow> data_state \<times> dm_effect list" where
  "handleFileUpload rnd file st =
     (let fileId = rnd in
      case file_text file of
        Inr content \<Rightarrow>
          (addFile \<lparr>item_name = file_name file, item_id = fileId,
                    item_content = Some content\<rparr> st, [])
      | Inl err \<Rightarrow>
          (addFile \<lparr>item_name = file_name file, item_id = fileId,
                    item_content = None\<rparr> st,
           [DmConsoleError ''Failed to read file:'']))"

text \<open>
  \<open>indexDocuments\<close>: the optional callback is an option; the callback is the function
  from the file list to what its promise settles to. The effects list records, in
  order, the calls made to the callback, the timer set and the console.
\<close>

definition indexDocuments ::
  "(FileItem list \<Rightarrow> js_error + unit) option \<Rightarrow> data_state
     \<Rightarrow> data_state \<times> dm_effect list" where
  "indexDocuments ragIndexFunction st =
     (if length (files st) = 0 then (st, [])
      else
        let st1 = st\<lparr>isIndexing := True, ragStatus := ''Indexing...''\<rparr> in
        case ragIndexFunction of
          Some f \<Rightarrow>
            (case f (files st) of
               Inr _ \<Rightarrow>
                 (st1\<lparr>ragStatus := ''Knowledge Base Ready'', isIndexing := False\<rparr>,
                  [RagIndexCalled (files st)])
             | Inl err \<Rightarrow>
                 (st1\<lparr>ragStatus := ''Indexing Failed'', isIndexing := False\<rparr>,
                  [RagIndexCalled (files st), DmConsoleError ''Indexing failed:'']))
        | None \<Rightarrow>
            (st1\<lparr>ragStatus := ''Knowledge Base Ready'', isIndexing := False\<rparr>,
             [TimeoutSet 1500]))"

section \<open>The install-flow hook (usePWAInstall)\<close>

text \<open>
  \<open>BeforeInstallPromptEvent\<close>: \<open>ev_prompt\<close> is \<open>None\<close> when the event carries no
  \<open>prompt\<close> method, otherwise what the promise \<open>prompt()\<close> settles to (a synchronous
  throw of \<open>prompt()\<close> inside the \<open>try\<close> block is the same rejection);
  \<open>userChoice\<close> is what that promise settles to.
\<close>

datatype outcome = accepted | dismissed

record choiceResult =
  choice_outcome :: outcome
  platform :: string

record BeforeInstallPromptEvent =
  ev_prompt :: "(js_error + unit) option"
  userChoice :: "js_error + choiceResult"

text \<open>The four \<open>useState\<close> cells of the hook.\<close>

record pwa_state =
  canInstall :: bool
  isInstalled :: bool
  isPrompting :: bool
  deferredPrompt :: "BeforeInstallPromptEvent option"

definition initial_pwa_state :: pwa_state where
  "initial_pwa_state =
     \<lparr>canInstall = False, isInstalled = False, isPrompting = False, deferredPrompt = None\<rparr>"

text \<open>
  What \<open>checkInstalled\<close> reads from the browser: \<open>matchMedia('(display-mode:
  standalone)').matches\<close>, \<open>navigator.standalone\<close> (\<open>None\<close> when the property is
  undefined) and \<open>document.referrer\<close>.
\<close>

record install_signals =
  displayModeStandalone :: bool
  navigatorStandalone :: "bool option"
  referrer :: string

datatype pwa_effect =
    ConsoleLog string
  | ConsoleWarn string
  | ConsoleError string
  | PreventDefault
  | PromptCalled

text \<open>
  \<open>a || b || c\<close> on a boolean, an optional boolean and a boolean: the value is truthy
  exactly when one operand is.
\<close>

definition isStandalone :: "install_signals \<Rightarrow> bool" where
  "isStandalone sig =
     (displayModeStandalone sig \<or> navigatorStandalone sig = Some True
      \<or> includes_str (referrer sig) ''android-app://'')"

definition checkInstalled :: "install_signals \<Rightarrow> pwa_state \<Rightarrow> pwa_state" where
  "checkInstalled sig st = st\<lparr>isInstalled := isStandalone sig\<rparr>"

definition handleBeforeInstallPrompt ::
  "BeforeInstallPromptEvent \<Rightarrow> pwa_state \<Rightarrow> pwa_state \<times> pwa_effect list" where
  "handleBeforeInstallPrompt installEvent st =
     (if ev_prompt installEvent \<noteq> None
      then (st\<lparr>deferredPrompt := Some installEvent, canInstall := True\<rparr>,
            [PreventDefault,
             ConsoleLog ''[PWA Install] Install prompt available - install button will appear in header''])
      else (st, []))"

definition handleAppInstalled :: "pwa_state \<Rightarrow> pwa_state \<times> pwa_effect list" where
  "handleAppInstalled st =
     (st\<lparr>isInstalled := True, canInstall := False, deferredPrompt := None\<rparr>,
      [ConsoleLog ''[PWA Install] App was installed''])"

text \<open>
  \<open>promptInstall\<close> is created anew by every render of the hook and closes over the
  value \<open>deferredPrompt\<close> had in that render: the test \<open>!deferredPrompt\<close> and the
  calls \<open>deferredPrompt.prompt()\<close> and \<open>deferredPrompt.userChoice\<close> read that
  captured value, whatever the cells hold when the function is called; the setters write
  the cells. The first argument is the captured value, the second the cells at the call;
  the call is run to completion. The \<open>catch\<close> block is reached when \<open>prompt()\<close> is
  not callable or rejects, and when \<open>userChoice\<close> rejects; the \<open>finally\<close> block ends
  every branch that entered \<open>try\<close>. \<open>PromptCalled\<close> records each call of the
  capture's \<open>prompt()\<close>.
\<close>

definition promptInstall_catch :: "pwa_state \<Rightarrow> pwa_state" where
  "promptInstall_catch st = st\<lparr>deferredPrompt := None, canInstall := False\<rparr>"

definition promptInstall_finally :: "pwa_state \<Rightarrow> pwa_state" where
  "promptInstall_finally st = st\<lparr>isPrompting := False\<rparr>"

definition promptInstall ::
  "BeforeInstallPromptEvent option \<Rightarrow> pwa_state \<Rightarrow> pwa_state \<times> pwa_effect list" where
  "promptInstall captured st =
     (case captured of
        None \<Rightarrow> (st, [ConsoleWarn ''[PWA Install] Install prompt not available''])
      | Some ev \<Rightarrow>
          let st1 = st\<lparr>isPrompting := True\<rparr> in
          (case ev_prompt ev of
             None \<Rightarrow>
               (promptInstall_finally (promptInstall_catch st1),
                [ConsoleError ''[PWA Install] Error showing install prompt:''])
           | Some (Inl err) \<Rightarrow>
               (promptInstall_finally (promptInstall_catch st1),
                [PromptCalled, ConsoleError ''[PWA Install] Error showing install prompt:''])
           | Some (Inr _) \<Rightarrow>
               (case userChoice ev of
                  Inl err \<Rightarrow>
                    (promptInstall_finally (promptInstall_catch st1),
                     [PromptCalled,
                      ConsoleError ''[PWA Install] Error showing install prompt:''])
                | Inr choiceResult \<Rightarrow>
                    if choice_outcome choiceResult = accepted
                    then (promptInstall_finally
                            (st1\<lparr>isInstalled := True, deferredPrompt := None,
                                  canInstall := False\<rparr>),
                          [PromptCalled,
                           ConsoleLog ''[PWA Install] User accepted the install prompt''])
                    else (promptInstall_finally
                            (st1\<lparr>deferredPrompt := None, canInstall := False\<rparr>),
                          [PromptCalled,
                           ConsoleLog ''[PWA Install] User dismissed the install prompt'']))))"

text \<open>
  One render of the hook on the cells \<open>st\<close>: the object \<open>usePWAInstall\<close> returns.
  Its \<open>promptInstall\<close> is the function that closes over \<open>deferredPrompt st\<close>.
\<close>

record UsePWAInstallReturn =
  ret_canInstall :: bool
  ret_isInstalled :: bool
  ret_promptInstall :: "pwa_state \<Rightarrow> pwa_state \<times> pwa_effect list"
  ret_isPrompting :: bool

definition usePWAInstall :: "pwa_state \<Rightarrow> UsePWAInstallReturn" where
  "usePWAInstall st =
     \<lparr>ret_canInstall = canInstall st, ret_isInstalled = isInstalled st,
      ret_promptInstall = promptInstall (deferredPrompt st),
      ret_isPrompting = isPrompting st\<rparr>"

text \<open>
  The controller as a transition system: one step per browser event, interval tick or
  call of a \<open>promptInstall\<close> (the event carries the value the called function closes
  over). Mounting runs \<open>checkInstalled\<close> once on the initial state.
\<close>

datatype pwa_event =
    Poll install_signals
  | BeforeInstallPrompt BeforeInstallPromptEvent
  | AppInstalled
  | PromptInstall "BeforeInstallPromptEvent option"

fun pwa_step :: "pwa_event \<Rightarrow> pwa_state \<Rightarrow> pwa_state" where
  "pwa_step (Poll sig) st = checkInstalled sig st"
| "pwa_step (BeforeInstallPrompt ev) st = fst (handleBeforeInstallPrompt ev st)"
| "pwa_step AppInstalled st = fst (handleAppInstalled st)"
| "pwa_step (PromptInstall captured) st = fst (promptInstall captured st)"

definition mount :: "install_signals \<Rightarrow> pwa_state" where
  "mount sig = checkInstalled sig initial_pwa_state"

text \<open>
  \<open>setInterval(checkInstalled, 1000)\<close> on an ideal timer: tick \<open>k\<close> (\<open>k \<ge> 1\<close>) runs
  \<open>checkInstalled\<close> at \<open>1000 * k\<close> milliseconds after mounting, on the signals the
  browser shows at that instant. \<open>polled_state\<close> is the hook's state at time \<open>t\<close> when
  nothing but the mount-time check and the ticks has run.
\<close>

definition poll_interval_ms :: nat where
  "poll_interval_ms = 1000"

fun poll_ticks :: "(nat \<Rightarrow> install_signals) \<Rightarrow> nat \<Rightarrow> pwa_state" where
  "poll_ticks sigs 0 = mount (sigs 0)"
| "poll_ticks sigs (Suc k) =
     checkInstalled (sigs (poll_interval_ms * Suc k)) (poll_ticks sigs k)"

definition polled_state :: "(nat \<Rightarrow> install_signals) \<Rightarrow> nat \<Rightarrow> pwa_state" where
  "polled_state sigs t = poll_ticks sigs (t div poll_interval_ms)"

section \<open>The service worker\<close>

subsection \<open>The browser interfaces the worker calls\<close>

text \<open>
  A \<open>Response\<close> and a \<open>Request\<close>, as far as the worker reads them. \<open>url_origin\<close>
  and \<open>url_pathname\<close> are the \<open>origin\<close> and \<open>pathname\<close> of \<open>new
  URL(request.url)\<close>. Requests are matched in a cache by their absolute URL (the
  worker passes no match options; request methods other than GET and \<open>Vary\<close>
  headers are left out).
\<close>

record js_response =
  status :: nat
  statusText :: string
  resp_type :: string
  headers :: "(string \<times> string) list"
  body :: string

record js_request =
  url :: string
  url_origin :: string
  url_pathname :: string
  destination :: string

text \<open>
  A cache generation is an association list from request URL to response, in insertion
  order; the \<open>CacheStorage\<close> is an association list from generation name to cache,
  in creation order (the order \<open>caches.keys()\<close> and \<open>caches.match\<close> follow).
\<close>

type_synonym cache = "(string \<times> js_response) list"

type_synonym cache_storage = "(string \<times> cache) list"

text \<open>The network: what \<open>fetch\<close> of an absolute URL settles to.\<close>

type_synonym network = "string \<Rightarrow> js_error + js_response"

text \<open>
  The worker's global scope: \<open>location.origin\<close>, and the resolution of a URL string
  against the worker's base URL (what \<open>new Request(url)\<close> does to a string).
\<close>

record sw_env =
  location_origin :: string
  resolve_url :: "string \<Rightarrow> string"

datatype sw_console = SwLog string | SwError string

text \<open>
  The worker's observable state: the cache storage, whether \<open>skipWaiting()\<close> and
  \<open>clients.claim()\<close> have been called, the console, and the URLs fetched from the
  network, in order.
\<close>

record sw_state =
  caches :: cache_storage
  skipWaitingCalled :: bool
  clientsClaimed :: bool
  console :: "sw_console list"
  fetched :: "string list"

definition cache_match :: "string \<Rightarrow> cache \<Rightarrow> js_response option" where
  "cache_match k c = map_of c k"

definition cache_put :: "string \<Rightarrow> js_response \<Rightarrow> cache \<Rightarrow> cache" where
  "cache_put k r c = filter (\<lambda>e. fst e \<noteq> k) c @ [(k, r)]"

fun caches_match :: "string \<Rightarrow> cache_storage \<Rightarrow> js_response option" where
  "caches_match k [] = None"
| "caches_match k (g # gs) =
     (case cache_match k (snd g) of
        Some r \<Rightarrow> Some r
      | None \<Rightarrow> caches_match k gs)"

definition caches_keys :: "cache_storage \<Rightarrow> string list" where
  "caches_keys cs = map fst cs"

definition caches_open :: "string \<Rightarrow> cache_storage \<Rightarrow> cache_storage" where
  "caches_open n cs = (if n \<in> set (caches_keys cs) then cs else cs @ [(n, [])])"

definition caches_delete :: "string \<Rightarrow> cache_storage \<Rightarrow> cache_storage" where
  "caches_delete n cs = filter (\<lambda>g. fst g \<noteq> n) cs"

definition storage_put :: "string \<Rightarrow> string \<times> js_response \<Rightarrow> cache_storage \<Rightarrow> cache_storage" where
  "storage_put n e cs =
     map (\<lambda>g. if fst g = n then (fst g, cache_put (fst e) (snd e) (snd g)) else g) cs"

subsection \<open>Promises over the worker's state\<close>

text \<open>
  A promise-returning operation takes the state and gives what the promise settles to
  and the state then. \<open>promise_then\<close> is \<open>.then(f)\<close>, \<open>promise_catch\<close> is
  \<open>.catch(h)\<close>, \<open>promise_all\<close> is \<open>Promise.all\<close> over operations that have all
  been started: every one runs, and the first rejection is the result.
\<close>

type_synonym 'a sw_promise = "sw_state \<Rightarrow> (js_error + 'a) \<times> sw_state"

definition resolved :: "'a \<Rightarrow> 'a sw_promise" where
  "resolved a = (\<lambda>st. (Inr a, st))"

definition promise_then :: "'a sw_promise \<Rightarrow> ('a \<Rightarrow> 'b sw_promise) \<Rightarrow> 'b sw_promise" where
  "promise_then p f =
     (\<lambda>st. case p st of
              (Inl e, st1) \<Rightarrow> (Inl e, st1)
            | (Inr a, st1) \<Rightarrow> f a st1)"

definition promise_catch :: "'a sw_promise \<Rightarrow> (js_error \<Rightarrow> 'a sw_promise) \<Rightarrow> 'a sw_promise" where
  "promise_catch p h =
     (\<lambda>st. case p st of
              (Inl e, st1) \<Rightarrow> h e st1
            | (Inr a, st1) \<Rightarrow> (Inr a, st1))"

definition seq :: "unit sw_promise \<Rightarrow> 'b sw_promise \<Rightarrow> 'b sw_promise" where
  "seq p q = promise_then p (\<lambda>_. q)"

fun promise_all :: "'a sw_promise list \<Rightarrow> 'a list sw_promise" where
  "promise_all [] = resolved []"
| "promise_all (p # ps) =
     (\<lambda>st. case p st of
              (r, st1) \<Rightarrow>
                (case promise_all ps st1 of
                   (rs, st2) \<Rightarrow>
                     ((case r of
                         Inl e \<Rightarrow> Inl e
                       | Inr a \<Rightarrow> (case rs of Inl e \<Rightarrow> Inl e | Inr as \<Rightarrow> Inr (a # as))),
                      st2)))"

text \<open>A promise nobody awaits: its effect on the state stays, its result is dropped.\<close>

definition not_awaited :: "'a sw_promise \<Rightarrow> unit sw_promise" where
  "not_awaited p = (\<lambda>st. (Inr (), snd (p st)))"

definition console_log :: "string \<Rightarrow> unit sw_promise" where
  "console_log m = (\<lambda>st. (Inr (), st\<lparr>console := console st @ [SwLog m]\<rparr>))"

definition console_error :: "string \<Rightarrow> unit sw_promise" where
  "console_error m = (\<lambda>st. (Inr (), st\<lparr>console := console st @ [SwError m]\<rparr>))"

definition skipWaiting :: "unit sw_promise" where
  "skipWaiting = (\<lambda>st. (Inr (), st\<lparr>skipWaitingCalled := True\<rparr>))"

definition clients_claim :: "unit sw_promise" where
  "clients_claim = (\<lambda>st. (Inr (), st\<lparr>clientsClaimed := True\<rparr>))"

text \<open>\<open>caches.open(name)\<close> creates the generation when it is absent; the handle is its name.\<close>

definition sw_caches_open :: "string \<Rightarrow> string sw_promise" where
  "sw_caches_open n = (\<lambda>st. (Inr n, st\<lparr>caches := caches_open n (caches st)\<rparr>))"

definition sw_caches_keys :: "string list sw_promise" where
  "sw_caches_keys = (\<lambda>st. (Inr (caches_keys (caches st)), st))"

definition sw_caches_delete :: "string \<Rightarrow> bool sw_promise" where
  "sw_caches_delete n =
     (\<lambda>st. (Inr (n \<in> set (caches_keys (caches st))),
            st\<lparr>caches := caches_delete n (caches st)\<rparr>))"

definition sw_caches_match :: "string \<Rightarrow> js_response option sw_promise" where
  "sw_caches_match k = (\<lambda>st. (Inr (caches_match k (caches st)), st))"

definition sw_cache_put :: "string \<Rightarrow> string \<Rightarrow> js_response \<Rightarrow> unit sw_promise" where
  "sw_cache_put n k r = (\<lambda>st. (Inr (), st\<lparr>caches := storage_put n (k, r) (caches st)\<rparr>))"

definition sw_fetch :: "network \<Rightarrow> string \<Rightarrow> js_response sw_promise" where
  "sw_fetch net u = (\<lambda>st. (net u, st\<lparr>fetched := fetched st @ [u]\<rparr>))"

text \<open>
  \<open>cache.addAll(requests)\<close> of the Cache interface: every request is fetched; the
  promise rejects when a fetch rejects, when a response is not ok (status outside
  200..299) or partial (206), or when two requests of the list have the same URL;
  only when none of this happens are the entries stored, in one batch.
\<close>

definition response_ok :: "js_response \<Rightarrow> bool" where
  "response_ok r = (200 \<le> status r \<and> status r \<le> 299 \<and> status r \<noteq> 206)"

fun fetch_all :: "network \<Rightarrow> string list \<Rightarrow> js_error + (string \<times> js_response) list" where
  "fetch_all net [] = Inr []"
| "fetch_all net (u # us) =
     (case net u of
        Inl e \<Rightarrow> Inl e
      | Inr r \<Rightarrow>
          if \<not> response_ok r then Inl (TypeError ''Request failed'')
          else (case fetch_all net us of
                  Inl e \<Rightarrow> Inl e
                | Inr es \<Rightarrow> Inr ((u, r) # es)))"

definition cache_addAll :: "sw_env \<Rightarrow> network \<Rightarrow> string \<Rightarrow> string list \<Rightarrow> unit sw_promise" where
  "cache_addAll env net n urls =
     (\<lambda>st. let ks = map (resolve_url env) urls;
                st1 = st\<lparr>fetched := fetched st @ ks\<rparr>
            in case fetch_all net ks of
                 Inl e \<Rightarrow> (Inl e, st1)
               | Inr es \<Rightarrow>
                   if \<not> distinct ks
                   then (Inl (InvalidStateError ''duplicate requests''), st1)
                   else (Inr (), st1\<lparr>caches := fold (storage_put n) es (caches st1)\<rparr>))"

subsection \<open>The worker's constants and event handlers\<close>

definition CACHE_NAME :: string where
  "CACHE_NAME = ''lumina-rag-v1''"

definition STATIC_CACHE_NAME :: string where
  "STATIC_CACHE_NAME = ''lumina-rag-static-v1''"

definition DYNAMIC_CACHE_NAME :: string where
  "DYNAMIC_CACHE_NAME = ''lumina-rag-dynamic-v1''"

definition STATIC_ASSETS :: "string list" where
  "STATIC_ASSETS =
     [''/'', ''/index.html'', ''/lumina.svg'', ''/manifest.json'',
      ''/src/main.tsx'', ''/src/App.tsx'', ''/src/index.css'']"

text \<open>
  The install listener. The result is what the promise passed to
  \<open>event.waitUntil\<close> settles to: the install transition fails exactly when it is a
  rejection.
\<close>

definition install_handler :: "sw_env \<Rightarrow> network \<Rightarrow> unit sw_promise" where
  "install_handler env net =
     seq (console_log ''[Service Worker] Installing...'')
       (promise_catch
          (promise_then
             (promise_then (sw_caches_open STATIC_CACHE_NAME)
                (\<lambda>cache.
                   seq (console_log ''[Service Worker] Caching static assets'')
                     (cache_addAll env net cache STATIC_ASSETS)))
             (\<lambda>_. seq (console_log ''[Service Worker] Static assets cached'') skipWaiting))
          (\<lambda>error. console_error ''[Service Worker] Failed to cache static assets:''))"

text \<open>The activate listener; \<open>is_old_cache\<close> is the predicate given to \<open>filter\<close>.\<close>

definition is_old_cache :: "string \<Rightarrow> bool" where
  "is_old_cache cacheName =
     (cacheName \<noteq> STATIC_CACHE_NAME \<and> cacheName \<noteq> DYNAMIC_CACHE_NAME
      \<and> startsWith cacheName ''lumina-rag-'')"

definition delete_old_cache :: "string \<Rightarrow> bool sw_promise" where
  "delete_old_cache cacheName =
     seq (console_log (''[Service Worker] Deleting old cache: '' @ cacheName))
       (sw_caches_delete cacheName)"

definition activate_handler :: "unit sw_promise" where
  "activate_handler =
     seq (console_log ''[Service Worker] Activating...'')
       (promise_then
          (promise_then sw_caches_keys
             (\<lambda>cacheNames.
                promise_all (map delete_old_cache (filter is_old_cache cacheNames))))
          (\<lambda>_. seq (console_log ''[Service Worker] Activated'') clients_claim))"

text \<open>
  The fetch listener. \<open>PassThrough\<close> is a return without \<open>event.respondWith\<close>;
  \<open>RespondWith r\<close> carries what the promise passed to \<open>respondWith\<close> settles to,
  \<open>Inr None\<close> when it resolves with \<open>undefined\<close>. The write to the dynamic
  generation is not awaited by the chain; its effect is applied to the state at once.
\<close>

datatype fetch_outcome = PassThrough | RespondWith "js_error + js_response option"

definition offline_response :: js_response where
  "offline_response =
     \<lparr>status = 503, statusText = ''Service Unavailable'', resp_type = ''default'',
      headers = [(''Content-Type'', ''text/plain'')],
      body = ''Offline - content not available''\<rparr>"

definition is_excluded :: "js_request \<Rightarrow> bool" where
  "is_excluded request =
     (includes_str (url_pathname request) ''/workers/''
      \<or> includes_str (url_pathname request) ''/node_modules/''
      \<or> startsWith (url request) ''chrome-extension://''
      \<or> startsWith (url request) ''moz-extension://'')"

definition fetch_response :: "sw_env \<Rightarrow> network \<Rightarrow> js_request \<Rightarrow> js_response option sw_promise" where
  "fetch_response env net request =
     promise_then (sw_caches_match (url request))
       (\<lambda>cachedResponse.
          case cachedResponse of
            Some r \<Rightarrow> resolved (Some r)
          | None \<Rightarrow>
              promise_catch
                (promise_then (sw_fetch net (url request))
                   (\<lambda>response.
                      if status response \<noteq> 200 \<or> resp_type response \<noteq> ''basic''
                      then resolved (Some response)
                      else seq (not_awaited
                                  (promise_then (sw_caches_open DYNAMIC_CACHE_NAME)
                                     (\<lambda>cache. sw_cache_put cache (url request) response)))
                             (resolved (Some response))))
                (\<lambda>_. if destination request = ''document''
                      then sw_caches_match (resolve_url env ''/index.html'')
                      else resolved (Some offline_response)))"

definition fetch_handler ::
  "sw_env \<Rightarrow> network \<Rightarrow> js_request \<Rightarrow> sw_state \<Rightarrow> fetch_outcome \<times> sw_state" where
  "fetch_handler env net request st =
     (if url_origin request \<noteq> location_origin env then (PassThrough, st)
      else if is_excluded request then (PassThrough, st)
      else case fetch_response env net request st of
             (r, st1) \<Rightarrow> (RespondWith r, st1))"

text \<open>A request the listener answers itself: same origin and not an excluded path.\<close>

definition intercepted :: "sw_env \<Rightarrow> js_request \<Rightarrow> bool" where
  "intercepted env request =
     (url_origin request = location_origin env \<and> \<not> is_excluded request)"

text \<open>
  The same request intercepted once per network of the list, each interception on the
  state the one before left.
\<close>

fun fetch_repeat ::
  "sw_env \<Rightarrow> network list \<Rightarrow> js_request \<Rightarrow> sw_state \<Rightarrow> fetch_outcome list \<times> sw_state" where
  "fetch_repeat env [] request st = ([], st)"
| "fetch_repeat env (net # nets) request st =
     (case fetch_handler env net request st of
        (r, st1) \<Rightarrow>
          (case fetch_repeat env nets request st1 of
             (rs, st2) \<Rightarrow> (r # rs, st2)))"

text \<open>
  The message listener; \<open>event.data\<close> is \<open>None\<close> when it is null or undefined. The
  result is what the promise passed to \<open>event.waitUntil\<close> settles to, \<open>None\<close> when
  \<open>waitUntil\<close> is not called.
\<close>

record sw_message =
  msg_type :: string
  msg_urls :: "string list"

definition message_handler ::
  "sw_env \<Rightarrow> network \<Rightarrow> sw_message option \<Rightarrow> sw_state
     \<Rightarrow> (js_error + unit) option \<times> sw_state" where
  "message_handler env net data st =
     (let st1 = (case data of
                   Some d \<Rightarrow> if msg_type d = ''SKIP_WAITING'' then snd (skipWaiting st) else st
                 | None \<Rightarrow> st)
      in case data of
           Some d \<Rightarrow>
             if msg_type d = ''CACHE_URLS''
             then (case promise_then (sw_caches_open DYNAMIC_CACHE_NAME)
                          (\<lambda>cache. cache_addAll env net cache (msg_urls d)) st1 of
                     (r, st2) \<Rightarrow> (Some r, st2))
             else (None, st1)
         | None \<Rightarrow> (None, st1))"

section \<open>Concrete inputs\<close>

text \<open>
  A worker served from \<open>https://lumina.example\<close>, networks that answer every URL but
  one or none at all, and worker states after a successful install, after a version
  bump, and with nothing but the root document in the dynamic generation.
\<close>

definition example_env :: sw_env where
  "example_env =
     \<lparr>location_origin = ''https://lumina.example'',
      resolve_url = (\<lambda>u. ''https://lumina.example'' @ u)\<rparr>"

definition page_response :: "string \<Rightarrow> js_response" where
  "page_response b =
     \<lparr>status = 200, statusText = ''OK'', resp_type = ''basic'', headers = [], body = b\<rparr>"

definition network_without :: "string \<Rightarrow> network" where
  "network_without missing =
     (\<lambda>u. if u = missing then Inl (TypeError ''Failed to fetch'')
          else Inr (page_response u))"

definition offline_network :: network where
  "offline_network = (\<lambda>u. Inl (TypeError ''Failed to fetch''))"

definition example_request :: "string \<Rightarrow> string \<Rightarrow> js_request" where
  "example_request path dest =
     \<lparr>url = ''https://lumina.example'' @ path, url_origin = ''https://lumina.example'',
      url_pathname = path, destination = dest\<rparr>"

definition empty_worker :: sw_state where
  "empty_worker =
     \<lparr>caches = [], skipWaitingCalled = False, clientsClaimed = False,
      console = [], fetched = []\<rparr>"

definition installed_worker :: sw_state where
  "installed_worker =
     empty_worker\<lparr>caches :=
       [(STATIC_CACHE_NAME,
         [(''https://lumina.example/'', page_response ''root''),
          (''https://lumina.example/index.html'', page_response ''index'')])]\<rparr>"

definition root_only_worker :: sw_state where
  "root_only_worker =
     empty_worker\<lparr>caches :=
       [(DYNAMIC_CACHE_NAME, [(''https://lumina.example/'', page_response ''root'')])]\<rparr>"

definition upgraded_worker :: sw_state where
  "upgraded_worker =
     empty_worker\<lparr>caches :=
       [(''lumina-rag-static-v0'', [(''https://lumina.example/'', page_response ''old'')]),
        (''other-app-v1'', []),
        (STATIC_CACHE_NAME, [(''https://lumina.example/'', page_response ''root'')]),
        (CACHE_NAME, []),
        (DYNAMIC_CACHE_NAME, [])]\<rparr>"

definition cache_urls_message :: "string list \<Rightarrow> sw_message option" where
  "cache_urls_message urls = Some \<lparr>msg_type = ''CACHE_URLS'', msg_urls = urls\<rparr>"

text \<open>Browser signals of a tab (nothing says standalone) and of a standalone window.\<close>

definition no_signals :: install_signals where
  "no_signals =
     \<lparr>displayModeStandalone = False, navigatorStandalone = None, referrer = []\<rparr>"

definition standalone_since :: "nat \<Rightarrow> nat \<Rightarrow> install_signals" where
  "standalone_since t0 t = no_signals\<lparr>displayModeStandalone := (t0 \<le> t)\<rparr>"

definition throwing_prompt :: BeforeInstallPromptEvent where
  "throwing_prompt =
     \<lparr>ev_prompt = Some (Inl (OtherError ''NotAllowedError'')),
      userChoice = Inl (OtherError ''NotAllowedError'')\<rparr>"

definition answered_prompt :: "outcome \<Rightarrow> BeforeInstallPromptEvent" where
  "answered_prompt out =
     \<lparr>ev_prompt = Some (Inr ()),
      userChoice = Inr \<lparr>choice_outcome = out, platform = ''web''\<rparr>\<rparr>"

text \<open>The cells after mounting and a \<open>beforeinstallprompt\<close> event carrying \<open>ev\<close>.\<close>

definition prompt_available :: "BeforeInstallPromptEvent \<Rightarrow> pwa_state" where
  "prompt_available ev = pwa_step (BeforeInstallPrompt ev) initial_pwa_state"

section \<open>Properties of the data-management hook\<close>

text \<open>
  Claim C10. When the file list is empty, \<open>indexDocuments\<close> is a no-op: whether a
  callback is supplied or not, it returns without calling it (no effect at all is
  recorded) and the whole state, \<open>ragStatus\<close> and \<open>isIndexing\<close> included, is
  unchanged.
\<close>

theorem indexDocuments_empty_noop:
  assumes "files st = []"
  shows "indexDocuments ragIndexFunction st = (st, [])"
  using assms by (simp add: indexDocuments_def)

theorem indexDocuments_empty_noop_witness:
  "files initial_data_state = []
   \<and> indexDocuments (Some (\<lambda>fs. Inr ())) initial_data_state = (initial_data_state, [])
   \<and> indexDocuments None initial_data_state = (initial_data_state, [])
   \<and> ragStatus (fst (indexDocuments (Some (\<lambda>fs. Inr ())) initial_data_state)) = ''Idle''
   \<and> \<not> isIndexing (fst (indexDocuments (Some (\<lambda>fs. Inr ())) initial_data_state))"
  using indexDocuments_empty_noop [of initial_data_state "Some (\<lambda>fs. Inr ())"]
        indexDocuments_empty_noop [of initial_data_state None]
  by (simp add: initial_data_state_def)

text \<open>
  Claim C9, as the claim states it, fails: the id of the new entry is not fresh when
  \<open>Math.random()\<close> returns a number an entry of the list already carries. Here the
  list holds one entry with id \<open>1/4\<close>, the read of the uploaded file rejects and the
  number drawn is \<open>1/4\<close> again: two entries share the id, and \<open>removeFile\<close> of
  that id then removes both.
\<close>

theorem handleFileUpload_id_collision:
  "map item_id (files (addFile \<lparr>item_name = ''a.txt'', item_id = 1/4, item_content = None\<rparr>
                         initial_data_state)) = [1/4]
   \<and> map item_id (files (fst (handleFileUpload (1/4)
        \<lparr>file_name = ''b.txt'', file_text = Inl (OtherError ''NotReadableError'')\<rparr>
        (addFile \<lparr>item_name = ''a.txt'', item_id = 1/4, item_content = None\<rparr>
           initial_data_state)))) = [1/4, 1/4]
   \<and> \<not> distinct (map item_id (files (fst (handleFileUpload (1/4)
        \<lparr>file_name = ''b.txt'', file_text = Inl (OtherError ''NotReadableError'')\<rparr>
        (addFile \<lparr>item_name = ''a.txt'', item_id = 1/4, item_content = None\<rparr>
           initial_data_state)))))
   \<and> files (removeFile (1/4) (fst (handleFileUpload (1/4)
        \<lparr>file_name = ''b.txt'', file_text = Inl (OtherError ''NotReadableError'')\<rparr>
        (addFile \<lparr>item_name = ''a.txt'', item_id = 1/4, item_content = None\<rparr>
           initial_data_state)))) = []"
  by (simp add: handleFileUpload_def addFile_def removeFile_def initial_data_state_def)

text \<open>
  Claim C9, amended. Upload resilience: when the text read of the uploaded file
  rejects, \<open>handleFileUpload\<close> appends exactly one entry, with the file's name, the
  number \<open>Math.random()\<close> returned for this call as id and no content field; when
  the read resolves it appends exactly one entry with the content. In both cases the
  entries present before, and every other cell of the state, are unchanged. The id is
  not checked against the list: the ids stay pairwise distinct when the number drawn
  differs from every id already there.
\<close>

theorem handleFileUpload_adds_one_entry:
  "(file_text file = Inl err \<longrightarrow>
      fst (handleFileUpload rnd file st) =
        st\<lparr>files := files st @
               [\<lparr>item_name = file_name file, item_id = rnd, item_content = None\<rparr>]\<rparr>)
   \<and> (file_text file = Inr txt \<longrightarrow>
      fst (handleFileUpload rnd file st) =
        st\<lparr>files := files st @
               [\<lparr>item_name = file_name file, item_id = rnd, item_content = Some txt\<rparr>]\<rparr>)
   \<and> length (files (fst (handleFileUpload rnd file st))) = Suc (length (files st))
   \<and> take (length (files st)) (files (fst (handleFileUpload rnd file st))) = files st
   \<and> map item_id (files (fst (handleFileUpload rnd file st))) = map item_id (files st) @ [rnd]
   \<and> (distinct (map item_id (files st)) \<and> rnd \<notin> set (map item_id (files st)) \<longrightarrow>
        distinct (map item_id (files (fst (handleFileUpload rnd file st)))))"
proof (cases "file_text file")
  case (Inl e)
  then have "fst (handleFileUpload rnd file st) =
      addFile \<lparr>item_name = file_name file, item_id = rnd, item_content = None\<rparr> st"
    by (simp add: handleFileUpload_def)
  with Inl show ?thesis by (simp add: addFile_def)
next
  case (Inr content)
  then have "fst (handleFileUpload rnd file st) =
      addFile \<lparr>item_name = file_name file, item_id = rnd, item_content = Some content\<rparr> st"
    by (simp add: handleFileUpload_def)
  with Inr show ?thesis by (simp add: addFile_def)
qed

theorem handleFileUpload_adds_one_entry_witness:
  "file_text \<lparr>file_name = ''a.txt'', file_text = Inl (OtherError ''NotReadableError'')\<rparr>
     = Inl (OtherError ''NotReadableError'')
   \<and> files (fst (handleFileUpload (1/4)
        \<lparr>file_name = ''a.txt'', file_text = Inl (OtherError ''NotReadableError'')\<rparr>
        initial_data_state))
      = [\<lparr>item_name = ''a.txt'', item_id = 1/4, item_content = None\<rparr>]
   \<and> file_text \<lparr>file_name = ''b.txt'', file_text = Inr ''hello''\<rparr> = Inr ''hello''
   \<and> files (fst (handleFileUpload (1/2)
        \<lparr>file_name = ''b.txt'', file_text = Inr ''hello''\<rparr>
        (addFile \<lparr>item_name = ''a.txt'', item_id = 1/4, item_content = None\<rparr>
           initial_data_state)))
      = [\<lparr>item_name = ''a.txt'', item_id = 1/4, item_content = None\<rparr>,
         \<lparr>item_name = ''b.txt'', item_id = 1/2, item_content = Some ''hello''\<rparr>]
   \<and> distinct (map item_id
        (files (addFile \<lparr>item_name = ''a.txt'', item_id = 1/4, item_content = None\<rparr>
                  initial_data_state)))
   \<and> (1/2::real) \<notin> set (map item_id
        (files (addFile \<lparr>item_name = ''a.txt'', item_id = 1/4, item_content = None\<rparr>
                  initial_data_state)))
   \<and> distinct (map item_id (files (fst (handleFileUpload (1/2)
        \<lparr>file_name = ''b.txt'', file_text = Inr ''hello''\<rparr>
        (addFile \<lparr>item_name = ''a.txt'', item_id = 1/4, item_content = None\<rparr>
           initial_data_state)))))"
  using handleFileUpload_adds_one_entry
          [of "\<lparr>file_name = ''a.txt'', file_text = Inl (OtherError ''NotReadableError'')\<rparr>"
              "OtherError ''NotReadableError''" "1/4" initial_data_state "''hello''"]
        handleFileUpload_adds_one_entry
          [of "\<lparr>file_name = ''b.txt'', file_text = Inr ''hello''\<rparr>"
              "OtherError ''NotReadableError''" "1/2"
              "addFile \<lparr>item_name = ''a.txt'', item_id = 1/4, item_content = None\<rparr>
                 initial_data_state"
              "''hello''"]
  by (simp add: initial_data_state_def addFile_def)

section \<open>Properties of the install-flow hook\<close>

text \<open>
  Claim C2. The installed state is meant to be kept once reached; the code loses it.
  In a browser tab (no standalone signal) the app-installed event sets
  \<open>isInstalled\<close>, and so does an accepted prompt; the next interval tick runs
  \<open>checkInstalled\<close>, which assigns the disjunction of the signals without looking
  at the flag, and sets it back to false.
\<close>

theorem installed_reset_by_poll:
  "isInstalled (pwa_step AppInstalled initial_pwa_state)
   \<and> \<not> isInstalled (pwa_step (Poll no_signals) (pwa_step AppInstalled initial_pwa_state))
   \<and> isInstalled
        (pwa_step (PromptInstall (Some (answered_prompt accepted)))
           (pwa_step (BeforeInstallPrompt (answered_prompt accepted)) initial_pwa_state))
   \<and> \<not> isInstalled
        (pwa_step (Poll no_signals)
           (pwa_step (PromptInstall (Some (answered_prompt accepted)))
              (pwa_step (BeforeInstallPrompt (answered_prompt accepted)) initial_pwa_state)))"
  by (simp add: handleAppInstalled_def checkInstalled_def isStandalone_def no_signals_def
        handleBeforeInstallPrompt_def answered_prompt_def promptInstall_def
        promptInstall_finally_def Let_def initial_pwa_state_def)

text \<open>
  Claim C6, as the claim states it, fails: a second call through the same function
  reference is not a no-op. The function of the render that holds the capture still
  closes over it after the first call has cleared the cell, so the second call calls
  \<open>prompt()\<close> again (here \<open>prompt()\<close> rejects both times).
\<close>

theorem promptInstall_same_reference_prompts_again:
  "deferredPrompt (fst (ret_promptInstall (usePWAInstall (prompt_available throwing_prompt))
                          (prompt_available throwing_prompt))) = None
   \<and> ret_promptInstall (usePWAInstall (prompt_available throwing_prompt))
        (fst (ret_promptInstall (usePWAInstall (prompt_available throwing_prompt))
                (prompt_available throwing_prompt)))
       = (initial_pwa_state,
          [PromptCalled, ConsoleError ''[PWA Install] Error showing install prompt:''])"
  by (simp add: usePWAInstall_def prompt_available_def handleBeforeInstallPrompt_def
        throwing_prompt_def promptInstall_def promptInstall_catch_def
        promptInstall_finally_def Let_def initial_pwa_state_def)

text \<open>
  Claim C6, amended. Single-use prompt: a \<open>promptInstall\<close> that closes over no
  capture only logs the warning (no call of \<open>prompt()\<close>, cells unchanged). One that
  closes over a capture, whatever the prompt does (accepted, dismissed,
  \<open>prompt()\<close> or \<open>userChoice\<close> throwing) and whatever the cells held, leaves the
  capture cell cleared and \<open>canInstall\<close> and \<open>isPrompting\<close> false, so a second
  call made through the \<open>promptInstall\<close> of the hook's next render is the
  warning-only no-op.
\<close>

theorem promptInstall_single_use:
  "promptInstall None st =
     (st, [ConsoleWarn ''[PWA Install] Install prompt not available''])
   \<and> deferredPrompt (fst (promptInstall (Some ev) st)) = None
   \<and> \<not> canInstall (fst (promptInstall (Some ev) st))
   \<and> \<not> isPrompting (fst (promptInstall (Some ev) st))
   \<and> ret_promptInstall (usePWAInstall (fst (promptInstall (Some ev) st)))
        (fst (promptInstall (Some ev) st)) =
       (fst (promptInstall (Some ev) st),
        [ConsoleWarn ''[PWA Install] Install prompt not available''])"
proof -
  have cleared: "deferredPrompt (fst (promptInstall (Some ev) st)) = None"
    by (simp add: promptInstall_def promptInstall_catch_def promptInstall_finally_def Let_def
          split: option.splits sum.splits)
  have flags: "\<not> canInstall (fst (promptInstall (Some ev) st))
               \<and> \<not> isPrompting (fst (promptInstall (Some ev) st))"
    by (simp add: promptInstall_def promptInstall_catch_def promptInstall_finally_def Let_def
          split: option.splits sum.splits)
  have warn: "promptInstall None s =
      (s, [ConsoleWarn ''[PWA Install] Install prompt not available''])" for s
    by (simp add: promptInstall_def)
  have next_render: "ret_promptInstall (usePWAInstall (fst (promptInstall (Some ev) st)))
      = promptInstall None"
    by (simp add: usePWAInstall_def cleared)
  show ?thesis
    using cleared flags warn by (simp add: next_render)
qed

theorem promptInstall_single_use_witness:
  "ret_promptInstall (usePWAInstall initial_pwa_state) initial_pwa_state =
       (initial_pwa_state, [ConsoleWarn ''[PWA Install] Install prompt not available''])
   \<and> deferredPrompt (prompt_available (answered_prompt accepted))
       = Some (answered_prompt accepted)
   \<and> fst (ret_promptInstall (usePWAInstall (prompt_available (answered_prompt accepted)))
            (prompt_available (answered_prompt accepted)))
       = initial_pwa_state\<lparr>isInstalled := True\<rparr>
   \<and> ret_promptInstall
        (usePWAInstall
           (fst (promptInstall (Some (answered_prompt accepted))
                   (prompt_available (answered_prompt accepted)))))
        (fst (promptInstall (Some (answered_prompt accepted))
                (prompt_available (answered_prompt accepted))))
       = (initial_pwa_state\<lparr>isInstalled := True\<rparr>,
          [ConsoleWarn ''[PWA Install] Install prompt not available''])"
proof -
  have a: "deferredPrompt (prompt_available (answered_prompt accepted))
       = Some (answered_prompt accepted)"
    by (simp add: prompt_available_def handleBeforeInstallPrompt_def answered_prompt_def)
  have b: "fst (promptInstall (Some (answered_prompt accepted))
                  (prompt_available (answered_prompt accepted)))
       = initial_pwa_state\<lparr>isInstalled := True\<rparr>"
    by (simp add: prompt_available_def handleBeforeInstallPrompt_def answered_prompt_def
          promptInstall_def promptInstall_finally_def Let_def initial_pwa_state_def)
  have c: "ret_promptInstall (usePWAInstall (prompt_available (answered_prompt accepted)))
       = promptInstall (Some (answered_prompt accepted))"
    by (simp add: usePWAInstall_def a)
  have d: "ret_promptInstall (usePWAInstall initial_pwa_state) = promptInstall None"
    by (simp add: usePWAInstall_def initial_pwa_state_def)
  note t = promptInstall_single_use
             [where st = initial_pwa_state and ev = "answered_prompt accepted"]
  from t have w: "promptInstall None initial_pwa_state =
       (initial_pwa_state, [ConsoleWarn ''[PWA Install] Install prompt not available''])"
    by blast
  note u = promptInstall_single_use
             [where st = "prompt_available (answered_prompt accepted)"
                and ev = "answered_prompt accepted"]
  from u have n: "ret_promptInstall
        (usePWAInstall
           (fst (promptInstall (Some (answered_prompt accepted))
                   (prompt_available (answered_prompt accepted)))))
        (fst (promptInstall (Some (answered_prompt accepted))
                (prompt_available (answered_prompt accepted))))
       = (fst (promptInstall (Some (answered_prompt accepted))
                (prompt_available (answered_prompt accepted))),
          [ConsoleWarn ''[PWA Install] Install prompt not available''])"
    by blast
  show ?thesis
    using a w n by (simp only: b c d simp_thms)
qed

text \<open>
  Claim C8. Installed detection: a polling step leaves \<open>isInstalled\<close> true exactly
  when the standalone media query matches, or the platform standalone flag is set, or
  the referrer contains \<open>android-app://\<close>. With ticks every \<open>poll_interval_ms =
  1000\<close> milliseconds and no other event, if the media query matches from time
  \<open>t0\<close> on, the flag is true at every time from \<open>t0 + 1000\<close> on.
\<close>

theorem poll_sets_installed_flag:
  "isInstalled (pwa_step (Poll sig) st) =
     (displayModeStandalone sig \<or> navigatorStandalone sig = Some True
      \<or> includes_str (referrer sig) ''android-app://'')
   \<and> poll_interval_ms = 1000
   \<and> ((\<forall>t' \<ge> t0. displayModeStandalone (sigs t')) \<and> t0 + poll_interval_ms \<le> t
        \<longrightarrow> isInstalled (polled_state sigs t))"
proof (intro conjI impI)
  show "isInstalled (pwa_step (Poll sig) st) =
     (displayModeStandalone sig \<or> navigatorStandalone sig = Some True
      \<or> includes_str (referrer sig) ''android-app://'')"
    by (simp add: checkInstalled_def isStandalone_def)
next
  show "poll_interval_ms = 1000" by (simp add: poll_interval_ms_def)
next
  assume a: "(\<forall>t' \<ge> t0. displayModeStandalone (sigs t')) \<and> t0 + poll_interval_ms \<le> t"
  then obtain k where k: "t div poll_interval_ms = Suc k"
    by (cases "t div poll_interval_ms") (auto simp: poll_interval_ms_def)
  have "t < poll_interval_ms * Suc k + poll_interval_ms"
    using k by (auto simp: poll_interval_ms_def)
  then have "t0 \<le> poll_interval_ms * Suc k" using a by simp
  then have "displayModeStandalone (sigs (poll_interval_ms * Suc k))" using a by blast
  then show "isInstalled (polled_state sigs t)"
    by (simp add: polled_state_def k checkInstalled_def isStandalone_def)
qed

theorem poll_sets_installed_flag_witness:
  "displayModeStandalone (standalone_since 1300 2000)
   \<and> 1300 + poll_interval_ms \<le> 2300
   \<and> \<not> isInstalled (polled_state (standalone_since 1300) 1999)
   \<and> isInstalled (polled_state (standalone_since 1300) 2300)
   \<and> isInstalled (pwa_step (Poll (no_signals\<lparr>referrer := ''android-app://com.example''\<rparr>))
                    initial_pwa_state)"
proof -
  have a: "\<forall>t' \<ge> 1300. displayModeStandalone (standalone_since 1300 t')"
    by (simp add: standalone_since_def)
  have b: "1300 + poll_interval_ms \<le> 2300" by (simp add: poll_interval_ms_def)
  have c: "polled_state (standalone_since 1300) 1999 =
             checkInstalled (standalone_since 1300 1000) (mount (standalone_since 1300 0))"
    by (simp add: polled_state_def poll_interval_ms_def)
  have d: "\<not> isInstalled (polled_state (standalone_since 1300) 1999)"
    by (simp add: c checkInstalled_def isStandalone_def standalone_since_def no_signals_def)
  show ?thesis
    using poll_sets_installed_flag
            [of "no_signals\<lparr>referrer := ''android-app://com.example''\<rparr>" initial_pwa_state
                1300 "standalone_since 1300" 2300]
          a b d
    by (simp add: no_signals_def standalone_since_def)
qed

section \<open>Properties of the service worker\<close>

lemmas promise_defs = seq_def promise_then_def promise_catch_def resolved_def not_awaited_def
  console_log_def console_error_def skipWaiting_def clients_claim_def sw_caches_open_def
  sw_caches_keys_def sw_caches_delete_def sw_caches_match_def sw_cache_put_def sw_fetch_def

subsection \<open>Facts about the cache storage and \<open>addAll\<close>\<close>

lemma fetch_all_rejects:
  "u \<in> set us \<Longrightarrow> net u = Inl e \<Longrightarrow> \<exists>e'. fetch_all net us = Inl e'"
  by (induction us) (auto split: sum.splits)

lemma caches_match_append_empty: "caches_match k (cs @ [(n, [])]) = caches_match k cs"
  by (induction cs) (simp_all add: cache_match_def split: option.splits)

lemma caches_match_open: "caches_match k (caches_open n cs) = caches_match k cs"
  by (simp add: caches_open_def caches_match_append_empty)

subsection \<open>Install\<close>

text \<open>
  Claim C1, as the claim states it, fails: with the fetch of \<open>/lumina.svg\<close>
  rejecting, the promise passed to \<open>event.waitUntil\<close> resolves, so the install
  transition does not fail.
\<close>

theorem install_resolves_on_failed_fetch:
  "''/lumina.svg'' \<in> set STATIC_ASSETS
   \<and> network_without ''https://lumina.example/lumina.svg''
        (resolve_url example_env ''/lumina.svg'') = Inl (TypeError ''Failed to fetch'')
   \<and> fst (install_handler example_env
            (network_without ''https://lumina.example/lumina.svg'') empty_worker) = Inr ()"
  by (simp add: install_handler_def promise_defs cache_addAll_def Let_def
      STATIC_ASSETS_def example_env_def network_without_def empty_worker_def
      page_response_def response_ok_def)

text \<open>
  Claim C1, amended. If the fetch of any URL of the static-asset manifest rejects, no
  part of the manifest is committed (the static generation is opened, created empty if
  absent, and no lookup in the cache storage changes), \<open>skipWaiting()\<close> is not
  called, and the failure is surfaced only by the \<open>console.error\<close> line: the
  \<open>catch\<close> handler swallows the rejection, so the promise passed to
  \<open>event.waitUntil\<close> resolves.
\<close>

theorem install_failure_swallowed:
  assumes "u \<in> set STATIC_ASSETS" and "net (resolve_url env u) = Inl e"
  shows "fst (install_handler env net st) = Inr ()
         \<and> caches (snd (install_handler env net st)) = caches_open STATIC_CACHE_NAME (caches st)
         \<and> caches_match k (caches (snd (install_handler env net st))) = caches_match k (caches st)
         \<and> skipWaitingCalled (snd (install_handler env net st)) = skipWaitingCalled st
         \<and> console (snd (install_handler env net st)) =
             console st @ [SwLog ''[Service Worker] Installing...'',
                           SwLog ''[Service Worker] Caching static assets'',
                           SwError ''[Service Worker] Failed to cache static assets:'']"
proof -
  have "resolve_url env u \<in> set (map (resolve_url env) STATIC_ASSETS)"
    using assms(1) by simp
  then obtain e' where "fetch_all net (map (resolve_url env) STATIC_ASSETS) = Inl e'"
    using fetch_all_rejects assms(2) by blast
  then show ?thesis
    by (simp add: install_handler_def promise_defs cache_addAll_def Let_def caches_match_open)
qed

theorem install_failure_swallowed_witness:
  "''/src/App.tsx'' \<in> set STATIC_ASSETS
   \<and> network_without ''https://lumina.example/src/App.tsx''
        (resolve_url example_env ''/src/App.tsx'') = Inl (TypeError ''Failed to fetch'')
   \<and> fst (install_handler example_env
            (network_without ''https://lumina.example/src/App.tsx'') empty_worker) = Inr ()
   \<and> caches (snd (install_handler example_env
            (network_without ''https://lumina.example/src/App.tsx'') empty_worker))
        = [(STATIC_CACHE_NAME, [])]
   \<and> \<not> skipWaitingCalled (snd (install_handler example_env
            (network_without ''https://lumina.example/src/App.tsx'') empty_worker))"
proof -
  have a: "''/src/App.tsx'' \<in> set STATIC_ASSETS" by (simp add: STATIC_ASSETS_def)
  have b: "network_without ''https://lumina.example/src/App.tsx''
        (resolve_url example_env ''/src/App.tsx'') = Inl (TypeError ''Failed to fetch'')"
    by (simp add: network_without_def example_env_def)
  have c: "caches_open STATIC_CACHE_NAME (caches empty_worker) = [(STATIC_CACHE_NAME, [])]"
    by (simp add: caches_open_def caches_keys_def empty_worker_def)
  have d: "\<not> skipWaitingCalled empty_worker" by (simp add: empty_worker_def)
  note t = install_failure_swallowed
            [where u = "''/src/App.tsx''" and env = example_env and st = empty_worker
               and net = "network_without ''https://lumina.example/src/App.tsx''"
               and e = "TypeError ''Failed to fetch''" and k = "[]", OF a b]
  from t have r: "fst (install_handler example_env
            (network_without ''https://lumina.example/src/App.tsx'') empty_worker) = Inr ()"
    by blast
  from t have s: "caches (snd (install_handler example_env
            (network_without ''https://lumina.example/src/App.tsx'') empty_worker))
        = caches_open STATIC_CACHE_NAME (caches empty_worker)"
    by blast
  from t have w: "skipWaitingCalled (snd (install_handler example_env
            (network_without ''https://lumina.example/src/App.tsx'') empty_worker))
        = skipWaitingCalled empty_worker"
    by blast
  show ?thesis
    using a b r d by (simp only: s w c simp_thms)
qed

subsection \<open>Activate\<close>

lemma promise_all_Cons_state:
  "snd (promise_all (p # ps) st) = snd (promise_all ps (snd (p st)))"
  by (simp split: prod.splits)

lemma delete_old_cache_state:
  "snd (delete_old_cache n st) =
     st\<lparr>caches := caches_delete n (caches st),
        console := console st @ [SwLog (''[Service Worker] Deleting old cache: '' @ n)]\<rparr>"
  by (simp add: delete_old_cache_def promise_defs)

lemma delete_old_caches_state:
  "snd (promise_all (map delete_old_cache ns) st) =
     st\<lparr>caches := filter (\<lambda>g. fst g \<notin> set ns) (caches st),
        console := console st
          @ map (\<lambda>n. SwLog (''[Service Worker] Deleting old cache: '' @ n)) ns\<rparr>"
proof (induction ns arbitrary: st)
  case Nil
  then show ?case by (simp add: resolved_def)
next
  case (Cons n ns)
  have "filter (\<lambda>g. fst g \<notin> set ns) (caches_delete n (caches st)) =
        filter (\<lambda>g. fst g \<notin> set (n # ns)) (caches st)"
    unfolding caches_delete_def filter_filter
    by (rule filter_cong) auto
  then show ?case
    by (simp only: list.map promise_all_Cons_state delete_old_cache_state Cons.IH)
       simp
qed

lemma delete_old_caches_resolves:
  "\<exists>bs. fst (promise_all (map delete_old_cache ns) st) = Inr bs"
proof (induction ns arbitrary: st)
  case Nil
  then show ?case by (simp add: resolved_def)
next
  case (Cons n ns)
  obtain b st1 where step: "delete_old_cache n st = (Inr b, st1)"
    by (simp add: delete_old_cache_def promise_defs)
  obtain bs where "fst (promise_all (map delete_old_cache ns) st1) = Inr bs"
    using Cons.IH by blast
  then obtain st2 where "promise_all (map delete_old_cache ns) st1 = (Inr bs, st2)"
    by (cases "promise_all (map delete_old_cache ns) st1") simp
  then show ?case by (simp add: step)
qed

lemma activate_caches:
  "caches (snd (activate_handler st)) = filter (\<lambda>g. \<not> is_old_cache (fst g)) (caches st)"
proof -
  let ?st1 = "st\<lparr>console := console st @ [SwLog ''[Service Worker] Activating...'']\<rparr>"
  let ?ns = "filter is_old_cache (caches_keys (caches st))"
  obtain bs where r: "fst (promise_all (map delete_old_cache ?ns) ?st1) = Inr bs"
    using delete_old_caches_resolves by blast
  have s: "caches (snd (promise_all (map delete_old_cache ?ns) ?st1)) =
      filter (\<lambda>g. fst g \<notin> set ?ns) (caches st)"
    by (simp add: delete_old_caches_state)
  have f: "filter (\<lambda>g. fst g \<notin> set ?ns) (caches st) =
      filter (\<lambda>g. \<not> is_old_cache (fst g)) (caches st)"
    by (rule filter_cong) (auto simp: caches_keys_def)
  obtain r' st2 where p: "promise_all (map delete_old_cache ?ns) ?st1 = (r', st2)"
    by (cases "promise_all (map delete_old_cache ?ns) ?st1")
  with r s have "r' = Inr bs" "caches st2 = filter (\<lambda>g. fst g \<notin> set ?ns) (caches st)"
    by simp_all
  then show ?thesis using p f
    by (simp add: activate_handler_def promise_defs)
qed

text \<open>
  Claim C3. Activation cleanup: a generation name present before the activate
  transition is still present after it if and only if it is the current static name,
  or the current dynamic name, or does not start with \<open>lumina-rag-\<close>.
\<close>

theorem activate_cleanup:
  assumes "n \<in> set (caches_keys (caches st))"
  shows "n \<in> set (caches_keys (caches (snd (activate_handler st)))) \<longleftrightarrow>
           (n = STATIC_CACHE_NAME \<or> n = DYNAMIC_CACHE_NAME \<or> \<not> startsWith n ''lumina-rag-'')"
  using assms by (auto simp: activate_caches caches_keys_def is_old_cache_def)

theorem activate_cleanup_witness:
  "''lumina-rag-static-v0'' \<in> set (caches_keys (caches upgraded_worker))
   \<and> ''lumina-rag-static-v0'' \<notin> set (caches_keys (caches (snd (activate_handler upgraded_worker))))
   \<and> ''other-app-v1'' \<in> set (caches_keys (caches upgraded_worker))
   \<and> ''other-app-v1'' \<in> set (caches_keys (caches (snd (activate_handler upgraded_worker))))
   \<and> STATIC_CACHE_NAME \<in> set (caches_keys (caches upgraded_worker))
   \<and> STATIC_CACHE_NAME \<in> set (caches_keys (caches (snd (activate_handler upgraded_worker))))"
proof -
  have k: "caches_keys (caches upgraded_worker) =
     [''lumina-rag-static-v0'', ''other-app-v1'', STATIC_CACHE_NAME, CACHE_NAME,
      DYNAMIC_CACHE_NAME]"
    by (simp add: upgraded_worker_def empty_worker_def caches_keys_def)
  have m0: "''lumina-rag-static-v0'' \<in> set (caches_keys (caches upgraded_worker))"
    by (simp add: k)
  have m1: "''other-app-v1'' \<in> set (caches_keys (caches upgraded_worker))"
    by (simp add: k)
  have m2: "STATIC_CACHE_NAME \<in> set (caches_keys (caches upgraded_worker))"
    by (simp add: k)
  have p0: "\<not> (''lumina-rag-static-v0'' = STATIC_CACHE_NAME
              \<or> ''lumina-rag-static-v0'' = DYNAMIC_CACHE_NAME
              \<or> \<not> startsWith ''lumina-rag-static-v0'' ''lumina-rag-'')"
    by (simp add: STATIC_CACHE_NAME_def DYNAMIC_CACHE_NAME_def)
  have p1: "\<not> startsWith ''other-app-v1'' ''lumina-rag-''"
    by simp
  show ?thesis
    using activate_cleanup [OF m0] activate_cleanup [OF m1] activate_cleanup [OF m2]
          m0 m1 m2 p0 p1
    by blast
qed

subsection \<open>Fetch interception\<close>

lemma fetch_handler_cached:
  assumes "intercepted env request" and "caches_match (url request) (caches st) = Some r"
  shows "fetch_handler env net request st = (RespondWith (Inr (Some r)), st)"
  using assms by (simp add: fetch_handler_def intercepted_def fetch_response_def promise_defs)

text \<open>
  Claim C4. Cache-first: for an intercepted request whose URL has an entry in some
  generation of the cache storage, every interception of a run of repetitions,
  whatever the network would answer, resolves with that entry unchanged and leaves the
  worker's state as it was: no URL is added to the list of network fetches and the
  cache storage is the same, so the next repetition finds the entry again.
\<close>

theorem cache_first:
  assumes "intercepted env request" and "caches_match (url request) (caches st) = Some r"
  shows "fetch_repeat env nets request st =
           (replicate (length nets) (RespondWith (Inr (Some r))), st)
         \<and> fetched (snd (fetch_repeat env nets request st)) = fetched st
         \<and> caches (snd (fetch_repeat env nets request st)) = caches st"
proof -
  have "fetch_repeat env nets request st =
          (replicate (length nets) (RespondWith (Inr (Some r))), st)"
    using assms by (induction nets) (simp_all add: fetch_handler_cached)
  then show ?thesis by simp
qed

theorem cache_first_witness:
  "intercepted example_env (example_request ''/index.html'' ''document'')
   \<and> caches_match (url (example_request ''/index.html'' ''document'')) (caches installed_worker)
       = Some (page_response ''index'')
   \<and> fetch_repeat example_env [offline_network, network_without [], offline_network]
        (example_request ''/index.html'' ''document'') installed_worker
       = ([RespondWith (Inr (Some (page_response ''index''))),
           RespondWith (Inr (Some (page_response ''index''))),
           RespondWith (Inr (Some (page_response ''index'')))], installed_worker)"
proof -
  have i: "intercepted example_env (example_request ''/index.html'' ''document'')"
    by (simp add: intercepted_def example_env_def example_request_def is_excluded_def)
  have m: "caches_match (url (example_request ''/index.html'' ''document''))
             (caches installed_worker) = Some (page_response ''index'')"
    by (simp add: example_request_def installed_worker_def empty_worker_def cache_match_def)
  have l: "replicate (length [offline_network, network_without [], offline_network])
             (RespondWith (Inr (Some (page_response ''index'')))) =
           [RespondWith (Inr (Some (page_response ''index''))),
            RespondWith (Inr (Some (page_response ''index''))),
            RespondWith (Inr (Some (page_response ''index'')))]"
    by (simp add: numeral_3_eq_3)
  note t = cache_first [OF i m, of "[offline_network, network_without [], offline_network]"]
  from t have "fetch_repeat example_env [offline_network, network_without [], offline_network]
        (example_request ''/index.html'' ''document'') installed_worker
       = (replicate (length [offline_network, network_without [], offline_network])
            (RespondWith (Inr (Some (page_response ''index'')))), installed_worker)"
    by blast
  then show ?thesis
    using i m by (simp only: l simp_thms)
qed

text \<open>
  Claim C5, as the claim states it, fails: with the root document cached (under
  \<open>/\<close>) but no entry for \<open>/index.html\<close>, a document request that is not cached
  and whose fetch rejects is answered with \<open>undefined\<close>, not with the cached root
  document.
\<close>

theorem offline_fallback_no_index:
  "intercepted example_env (example_request ''/about'' ''document'')
   \<and> caches_match (url (example_request ''/about'' ''document'')) (caches root_only_worker) = None
   \<and> offline_network (url (example_request ''/about'' ''document''))
        = Inl (TypeError ''Failed to fetch'')
   \<and> caches_match (resolve_url example_env ''/'') (caches root_only_worker)
        = Some (page_response ''root'')
   \<and> fst (fetch_handler example_env offline_network
            (example_request ''/about'' ''document'') root_only_worker)
        = RespondWith (Inr None)"
  by (simp add: fetch_handler_def intercepted_def fetch_response_def promise_defs
        example_env_def example_request_def root_only_worker_def empty_worker_def
        offline_network_def is_excluded_def cache_match_def)

text \<open>
  Claim C5, amended. For an intercepted request with no cached entry whose network
  fetch rejects: if the destination is a document and some generation holds an entry
  for \<open>/index.html\<close>, the response is that entry; if the destination is not a
  document, the response is the synthesized plain-text response with status 503; in
  every case the promise passed to \<open>respondWith\<close> resolves, it never rejects, and
  the only change of the worker's state is the recorded fetch.
\<close>

theorem offline_fallback:
  assumes "intercepted env request"
    and "caches_match (url request) (caches st) = None"
    and "net (url request) = Inl e"
  shows "(destination request = ''document'' \<longrightarrow>
            caches_match (resolve_url env ''/index.html'') (caches st) = Some d \<longrightarrow>
            fst (fetch_handler env net request st) = RespondWith (Inr (Some d)))
         \<and> (destination request \<noteq> ''document'' \<longrightarrow>
            fst (fetch_handler env net request st) = RespondWith (Inr (Some offline_response)))
         \<and> (\<exists>v. fst (fetch_handler env net request st) = RespondWith (Inr v))
         \<and> status offline_response = 503
         \<and> headers offline_response = [(''Content-Type'', ''text/plain'')]
         \<and> snd (fetch_handler env net request st) = st\<lparr>fetched := fetched st @ [url request]\<rparr>"
  using assms
  by (simp add: fetch_handler_def intercepted_def fetch_response_def promise_defs
        offline_response_def)

theorem offline_fallback_witness:
  "intercepted example_env (example_request ''/about'' ''document'')
   \<and> caches_match (url (example_request ''/about'' ''document'')) (caches installed_worker) = None
   \<and> offline_network (url (example_request ''/about'' ''document''))
        = Inl (TypeError ''Failed to fetch'')
   \<and> destination (example_request ''/about'' ''document'') = ''document''
   \<and> caches_match (resolve_url example_env ''/index.html'') (caches installed_worker)
        = Some (page_response ''index'')
   \<and> fst (fetch_handler example_env offline_network
            (example_request ''/about'' ''document'') installed_worker)
        = RespondWith (Inr (Some (page_response ''index'')))
   \<and> intercepted example_env (example_request ''/logo.png'' ''image'')
   \<and> caches_match (url (example_request ''/logo.png'' ''image'')) (caches installed_worker) = None
   \<and> destination (example_request ''/logo.png'' ''image'') \<noteq> ''document''
   \<and> fst (fetch_handler example_env offline_network
            (example_request ''/logo.png'' ''image'') installed_worker)
        = RespondWith (Inr (Some offline_response))"
proof -
  have i1: "intercepted example_env (example_request ''/about'' ''document'')"
    by (simp add: intercepted_def example_env_def example_request_def is_excluded_def)
  have n1: "caches_match (url (example_request ''/about'' ''document''))
              (caches installed_worker) = None"
    by (simp add: example_request_def installed_worker_def empty_worker_def cache_match_def)
  have f1: "offline_network (url (example_request ''/about'' ''document''))
              = Inl (TypeError ''Failed to fetch'')"
    by (simp add: offline_network_def)
  have d1: "destination (example_request ''/about'' ''document'') = ''document''"
    by (simp add: example_request_def)
  have x1: "caches_match (resolve_url example_env ''/index.html'') (caches installed_worker)
              = Some (page_response ''index'')"
    by (simp add: example_env_def installed_worker_def empty_worker_def cache_match_def)
  have i2: "intercepted example_env (example_request ''/logo.png'' ''image'')"
    by (simp add: intercepted_def example_env_def example_request_def is_excluded_def)
  have n2: "caches_match (url (example_request ''/logo.png'' ''image''))
              (caches installed_worker) = None"
    by (simp add: example_request_def installed_worker_def empty_worker_def cache_match_def)
  have f2: "offline_network (url (example_request ''/logo.png'' ''image''))
              = Inl (TypeError ''Failed to fetch'')"
    by (simp add: offline_network_def)
  have d2: "destination (example_request ''/logo.png'' ''image'') \<noteq> ''document''"
    by (simp add: example_request_def)
  note t1 = offline_fallback
              [where env = example_env and net = offline_network and st = installed_worker
                 and request = "example_request ''/about'' ''document''"
                 and e = "TypeError ''Failed to fetch''" and d = "page_response ''index''",
               OF i1 n1 f1]
  note t2 = offline_fallback
              [where env = example_env and net = offline_network and st = installed_worker
                 and request = "example_request ''/logo.png'' ''image''"
                 and e = "TypeError ''Failed to fetch''" and d = "page_response ''index''",
               OF i2 n2 f2]
  from t1 d1 x1 have r1: "fst (fetch_handler example_env offline_network
            (example_request ''/about'' ''document'') installed_worker)
        = RespondWith (Inr (Some (page_response ''index'')))"
    by blast
  from t2 d2 have r2: "fst (fetch_handler example_env offline_network
            (example_request ''/logo.png'' ''image'') installed_worker)
        = RespondWith (Inr (Some offline_response))"
    by blast
  show ?thesis
    using i1 n1 f1 d1 x1 r1 i2 n2 d2 r2 by blast
qed

subsection \<open>Control messages\<close>

lemma message_cache_urls:
  "message_handler env net (cache_urls_message urls) st =
     (case cache_addAll env net DYNAMIC_CACHE_NAME urls
             (st\<lparr>caches := caches_open DYNAMIC_CACHE_NAME (caches st)\<rparr>) of
        (r, st2) \<Rightarrow> (Some r, st2))"
  by (simp add: message_handler_def cache_urls_message_def promise_defs)

text \<open>
  Claim C7, as the claim states it, fails: with the list \<open>/a.js\<close>, \<open>/b.js\<close>,
  where the fetch of \<open>/a.js\<close> succeeds and the fetch of \<open>/b.js\<close> rejects, the
  promise rejects and \<open>/a.js\<close> is not in the cache storage afterwards.
\<close>

theorem cache_urls_drops_fetched_url:
  "network_without ''https://lumina.example/b.js'' ''https://lumina.example/a.js''
      = Inr (page_response ''https://lumina.example/a.js'')
   \<and> fst (message_handler example_env (network_without ''https://lumina.example/b.js'')
          (cache_urls_message [''/a.js'', ''/b.js'']) empty_worker)
      = Some (Inl (TypeError ''Failed to fetch''))
   \<and> caches_match ''https://lumina.example/a.js''
        (caches (snd (message_handler example_env (network_without ''https://lumina.example/b.js'')
           (cache_urls_message [''/a.js'', ''/b.js'']) empty_worker))) = None"
  by (simp add: message_cache_urls cache_addAll_def Let_def example_env_def
        network_without_def empty_worker_def page_response_def response_ok_def
        caches_open_def caches_keys_def cache_match_def)

text \<open>
  Claim C7, amended. The \<open>CACHE_URLS\<close> message populates the dynamic generation
  all or nothing: if the fetch of any URL of the list rejects, the promise passed to
  \<open>event.waitUntil\<close> rejects; and whenever that promise rejects, no URL of the
  list has been stored: the dynamic generation has been opened (created empty if
  absent) and no lookup in the cache storage has changed.
\<close>

theorem cache_urls_all_or_nothing:
  "(u \<in> set urls \<and> net (resolve_url env u) = Inl e \<longrightarrow>
      (\<exists>e'. fst (message_handler env net (cache_urls_message urls) st) = Some (Inl e')))
   \<and> (fst (message_handler env net (cache_urls_message urls) st) = Some (Inl e') \<longrightarrow>
        caches (snd (message_handler env net (cache_urls_message urls) st))
          = caches_open DYNAMIC_CACHE_NAME (caches st)
        \<and> caches_match k (caches (snd (message_handler env net (cache_urls_message urls) st)))
          = caches_match k (caches st))"
proof (intro conjI impI)
  assume a: "u \<in> set urls \<and> net (resolve_url env u) = Inl e"
  then have "resolve_url env u \<in> set (map (resolve_url env) urls)" by simp
  then obtain e2 where "fetch_all net (map (resolve_url env) urls) = Inl e2"
    using fetch_all_rejects a by blast
  then show "\<exists>e'. fst (message_handler env net (cache_urls_message urls) st) = Some (Inl e')"
    by (simp add: message_cache_urls cache_addAll_def Let_def)
next
  assume r: "fst (message_handler env net (cache_urls_message urls) st) = Some (Inl e')"
  then show c: "caches (snd (message_handler env net (cache_urls_message urls) st))
          = caches_open DYNAMIC_CACHE_NAME (caches st)"
    by (auto simp: message_cache_urls cache_addAll_def Let_def split: sum.splits if_splits)
  show "caches_match k (caches (snd (message_handler env net (cache_urls_message urls) st)))
          = caches_match k (caches st)"
    by (simp add: c caches_match_open)
qed

theorem cache_urls_all_or_nothing_witness:
  "''/b.js'' \<in> set [''/a.js'', ''/b.js'']
   \<and> network_without ''https://lumina.example/b.js'' (resolve_url example_env ''/b.js'')
        = Inl (TypeError ''Failed to fetch'')
   \<and> fst (message_handler example_env (network_without ''https://lumina.example/b.js'')
          (cache_urls_message [''/a.js'', ''/b.js'']) installed_worker)
        = Some (Inl (TypeError ''Failed to fetch''))
   \<and> caches (snd (message_handler example_env (network_without ''https://lumina.example/b.js'')
          (cache_urls_message [''/a.js'', ''/b.js'']) installed_worker))
        = caches installed_worker @ [(DYNAMIC_CACHE_NAME, [])]"
proof -
  have m: "''/b.js'' \<in> set [''/a.js'', ''/b.js'']" by simp
  have n: "network_without ''https://lumina.example/b.js'' (resolve_url example_env ''/b.js'')
        = Inl (TypeError ''Failed to fetch'')"
    by (simp add: network_without_def example_env_def)
  have r: "fst (message_handler example_env (network_without ''https://lumina.example/b.js'')
          (cache_urls_message [''/a.js'', ''/b.js'']) installed_worker)
        = Some (Inl (TypeError ''Failed to fetch''))"
    by (simp add: message_cache_urls cache_addAll_def Let_def example_env_def
        network_without_def page_response_def response_ok_def)
  have o: "caches_open DYNAMIC_CACHE_NAME (caches installed_worker)
        = caches installed_worker @ [(DYNAMIC_CACHE_NAME, [])]"
    by (simp add: caches_open_def caches_keys_def installed_worker_def empty_worker_def
        STATIC_CACHE_NAME_def DYNAMIC_CACHE_NAME_def)
  note t = cache_urls_all_or_nothing
            [where u = "''/b.js''" and urls = "[''/a.js'', ''/b.js'']"
               and net = "network_without ''https://lumina.example/b.js''"
               and env = example_env and e = "TypeError ''Failed to fetch''"
               and st = installed_worker and e' = "TypeError ''Failed to fetch''"
               and k = "[]"]
  from t r have c: "caches (snd (message_handler example_env
          (network_without ''https://lumina.example/b.js'')
          (cache_urls_message [''/a.js'', ''/b.js'']) installed_worker))
        = caches_open DYNAMIC_CACHE_NAME (caches installed_worker)"
    by blast
  show ?thesis
    using m n r by (simp only: c o simp_thms)
qed

end
